theory Spec2Isabelle
  imports
    Complex_Main
    "HOL-Library.Word"
    "HOL-Library.Signed_Division"
    "HOL-Library.Multiset"
    "HOL-Library.Sublist"
begin

section \<open>Data model\<close>

text \<open>
  The Go program works on \<open>int64\<close> game times (milliseconds) and \<open>float64\<close>
  coordinates. Game times are 64-bit words: \<open>+\<close> and \<open>-\<close> wrap as Go's do, and
  \<open>sint\<close> reads the two's complement value. Coordinates are modelled as real numbers:
  the rounding of IEEE-754 arithmetic, infinities and NaN are outside this model, and
  every statement below about coordinates is a statement about the exact arithmetic the
  code spells out. Player and client identifiers are strings.
\<close>

type_synonym int64 = "64 word"
type_synonym float64 = real

text \<open>Go's \<open>/\<close> on \<open>int64\<close> truncates towards zero; the result is again an \<open>int64\<close>.\<close>

definition int64_div :: "int64 \<Rightarrow> int64 \<Rightarrow> int64" where
  "int64_div a b = word_of_int (sint a sdiv sint b)"

text \<open>The conversion \<open>float64(n)\<close> of an \<open>int64\<close>.\<close>

definition float64_of_int64 :: "int64 \<Rightarrow> float64" where
  "float64_of_int64 n = real_of_int (sint n)"

subsection \<open>protocol/messages.go\<close>

record MoveData =
  PlayerID :: string
  VectorX :: float64
  VectorY :: float64
  GameTime :: int64

record PositionUpdateData =
  PlayerID :: string
  X :: float64
  Y :: float64
  GameTime :: int64

subsection \<open>client/game\_client.go: \<open>LocalPlayerState\<close>\<close>

record LocalPlayerState =
  PlayerID :: string
  X :: float64
  Y :: float64
  VelocityX :: float64
  VelocityY :: float64
  LastUpdateTime :: int64

text \<open>
  \<open>PositionData\<close> is declared last, so that the unqualified field names \<open>PlayerID\<close>,
  \<open>X\<close>, \<open>Y\<close> and \<open>GameTime\<close> are those of a position report; the fields of the other
  records are written with their record's name in front.
\<close>

record PositionData =
  PlayerID :: string
  X :: float64
  Y :: float64
  GameTime :: int64

record PositionSyncData =
  Positions :: "PositionData list"
  GameTime :: int64

text \<open>
  A handler first decodes the payload of its message (\<open>parseData\<close>, through the JSON
  codec) and returns at once when that fails. The codec is not modelled: a handler
  receives the outcome of the decoding, \<open>Inl ParseError\<close> or \<open>Inr\<close> of the typed record.
\<close>

datatype parse_error = ParseError

text \<open>A run-time panic of the Go program.\<close>

datatype panic = IndexOutOfRange

section \<open>gamesync/position\_arbitrator.go\<close>

record PositionArbitrator =
  epsilon :: float64

definition NewPositionArbitrator :: "float64 \<Rightarrow> PositionArbitrator" where
  "NewPositionArbitrator eps = \<lparr>epsilon = eps\<rparr>"

definition isSimilar :: "PositionArbitrator \<Rightarrow> PositionData \<Rightarrow> PositionData \<Rightarrow> bool" where
  "isSimilar pa p1 p2 =
     (let distance = sqrt ((X p1 - X p2) ^ 2 + (Y p1 - Y p2) ^ 2)
      in distance \<le> epsilon pa)"

text \<open>
  \<open>clusterPositions\<close>: the two nested \<open>for\<close> loops, with the \<open>used\<close> flags of the
  source. The inner loop runs \<open>j\<close> over \<open>i + 1 ..< len(positions)\<close> and carries the
  cluster under construction and the flags; the outer loop runs \<open>i\<close> over all indices
  and carries the clusters found so far and the flags. Every index read is below
  \<open>len(positions)\<close>, which is also the length of \<open>used\<close>.
\<close>

definition cluster_inner_step ::
  "PositionArbitrator \<Rightarrow> PositionData list \<Rightarrow> PositionData \<Rightarrow> nat \<Rightarrow>
   PositionData list \<times> bool list \<Rightarrow> PositionData list \<times> bool list" where
  "cluster_inner_step pa positions pos j = (\<lambda>(cluster, used).
     if used ! j then (cluster, used)
     else if isSimilar pa pos (positions ! j)
       then (cluster @ [positions ! j], used[j := True])
       else (cluster, used))"

definition cluster_outer_step ::
  "PositionArbitrator \<Rightarrow> PositionData list \<Rightarrow> nat \<Rightarrow>
   PositionData list list \<times> bool list \<Rightarrow> PositionData list list \<times> bool list" where
  "cluster_outer_step pa positions i = (\<lambda>(clusters, used).
     if used ! i then (clusters, used)
     else
       (let pos = positions ! i;
            (cluster, used') =
               fold (cluster_inner_step pa positions pos) [i + 1 ..< length positions]
                    ([pos], used[i := True])
        in (clusters @ [cluster], used')))"

definition clusterPositions ::
  "PositionArbitrator \<Rightarrow> PositionData list \<Rightarrow> PositionData list list" where
  "clusterPositions pa positions =
     fst (fold (cluster_outer_step pa positions) [0 ..< length positions]
            ([], replicate (length positions) False))"

text \<open>
  \<open>averagePosition\<close>: \<open>nil\<close> on an empty slice, otherwise the three running sums and
  the quotient. The time sum is an \<open>int64\<close> and wraps; \<open>int64(len(positions))\<close> is the
  length as a word.
\<close>

definition averagePosition ::
  "PositionArbitrator \<Rightarrow> PositionData list \<Rightarrow> PositionData option" where
  "averagePosition pa positions =
     (if length positions = 0 then None
      else
        (let playerID = PlayerID (positions ! 0);
             (sumX, sumY, sumTime) =
                fold (\<lambda>pos (sumX, sumY, sumTime).
                        (sumX + X pos, sumY + Y pos, sumTime + PositionData.GameTime pos))
                     positions (0, 0, 0);
             count = real (length positions)
         in Some \<lparr>PlayerID = playerID, X = sumX / count, Y = sumY / count,
                  GameTime = int64_div sumTime (of_nat (length positions))\<rparr>))"

text \<open>
  \<open>Arbitrate\<close>. The result is \<open>Inr None\<close> for Go's \<open>nil\<close>, \<open>Inr (Some p)\<close> for a
  pointer to \<open>p\<close>, and \<open>Inl IndexOutOfRange\<close> where \<open>clusters[0]\<close> would panic on an
  empty slice of clusters.
\<close>

definition max_cluster_step ::
  "PositionData list \<Rightarrow> PositionData list \<Rightarrow> PositionData list" where
  "max_cluster_step cluster maxCluster =
     (if length cluster > length maxCluster then cluster else maxCluster)"

definition Arbitrate ::
  "PositionArbitrator \<Rightarrow> PositionData list \<Rightarrow> panic + PositionData option" where
  "Arbitrate pa positions =
     (if length positions = 0 then Inr None
      else if length positions = 1 then Inr (Some (positions ! 0))
      else
        (let clusters = clusterPositions pa positions in
         case clusters of
           [] \<Rightarrow> Inl IndexOutOfRange
         | c0 # _ \<Rightarrow>
             (let maxCluster = fold max_cluster_step clusters c0
              in Inr (averagePosition pa maxCluster))))"

text \<open>
  The clustering as the specification words it: the first report not yet assigned seeds
  a cluster, the later unassigned reports within \<open>epsilon\<close> of that seed join it in
  order, and the rest is clustered the same way.
\<close>

fun seed_clusters :: "PositionArbitrator \<Rightarrow> PositionData list \<Rightarrow> PositionData list list" where
  "seed_clusters pa [] = []"
| "seed_clusters pa (seed # rest) =
     (seed # filter (isSimilar pa seed) rest)
       # seed_clusters pa (filter (\<lambda>p. \<not> isSimilar pa seed p) rest)"

section \<open>client/game\_client.go\<close>

text \<open>
  Of the client, the handlers below read and write the table of tracked players and read
  the movement speed; the transport, the clock, the lock and the stop channel play no
  part in them. The table maps a player id to that player's state.
\<close>

record GameClient =
  clientID :: string
  playerID :: string
  localPlayers :: "string \<rightharpoonup> LocalPlayerState"
  moveSpeed :: float64

definition NewGameClient :: "string \<Rightarrow> string \<Rightarrow> GameClient" where
  "NewGameClient cid pid =
     \<lparr>clientID = cid, playerID = pid, localPlayers = Map.empty, moveSpeed = 10\<rparr>"

definition updatePlayerPosition :: "LocalPlayerState \<Rightarrow> int64 \<Rightarrow> LocalPlayerState" where
  "updatePlayerPosition player targetTime =
     (let deltaTime = float64_of_int64 (targetTime - LastUpdateTime player) / 1000
      in player\<lparr>LocalPlayerState.X := LocalPlayerState.X player + VelocityX player * deltaTime,
                LocalPlayerState.Y := LocalPlayerState.Y player + VelocityY player * deltaTime,
                LastUpdateTime := targetTime\<rparr>)"

definition predictPosition :: "LocalPlayerState \<Rightarrow> int64 \<Rightarrow> float64 \<times> float64" where
  "predictPosition player targetTime =
     (let deltaTime = float64_of_int64 (targetTime - LastUpdateTime player) / 1000;
          x = LocalPlayerState.X player + VelocityX player * deltaTime;
          y = LocalPlayerState.Y player + VelocityY player * deltaTime
      in (x, y))"

definition handleMoveCommand :: "GameClient \<Rightarrow> parse_error + MoveData \<Rightarrow> GameClient" where
  "handleMoveCommand c msg =
     (case msg of
        Inl err \<Rightarrow> c
      | Inr moveData \<Rightarrow>
          (case localPlayers c (MoveData.PlayerID moveData) of
             None \<Rightarrow> c
           | Some player \<Rightarrow>
               (let player1 = updatePlayerPosition player (MoveData.GameTime moveData);
                    player2 = player1\<lparr>VelocityX := VectorX moveData * moveSpeed c,
                                      VelocityY := VectorY moveData * moveSpeed c\<rparr>
                in c\<lparr>localPlayers := (localPlayers c)(MoveData.PlayerID moveData \<mapsto> player2)\<rparr>)))"

definition handlePositionUpdate ::
  "GameClient \<Rightarrow> parse_error + PositionUpdateData \<Rightarrow> GameClient" where
  "handlePositionUpdate c msg =
     (case msg of
        Inl err \<Rightarrow> c
      | Inr updateData \<Rightarrow>
          (case localPlayers c (PositionUpdateData.PlayerID updateData) of
             None \<Rightarrow> c
           | Some player \<Rightarrow>
               (let (localX, localY) =
                       predictPosition player (PositionUpdateData.GameTime updateData);
                    errorX = PositionUpdateData.X updateData - localX;
                    errorY = PositionUpdateData.Y updateData - localY;
                    distance = sqrt (errorX * errorX + errorY * errorY)
                in if distance > 0.5
                   then c\<lparr>localPlayers := (localPlayers c)
                           (PositionUpdateData.PlayerID updateData \<mapsto>
                              player\<lparr>LocalPlayerState.X := PositionUpdateData.X updateData,
                                     LocalPlayerState.Y := PositionUpdateData.Y updateData,
                                     LastUpdateTime := PositionUpdateData.GameTime updateData\<rparr>)\<rparr>
                   else c)))"

section \<open>server/game\_server.go: the report window\<close>

text \<open>
  \<open>positionReports\<close> is a map from player id to a map from reporter (client) id to that
  reporter's position report. \<open>handlePositionSync\<close> touches nothing else of the server.
\<close>

type_synonym report_window = "string \<rightharpoonup> (string \<rightharpoonup> PositionData)"

record GameServer =
  positionReports :: report_window

definition position_sync_step :: "string \<Rightarrow> PositionData \<Rightarrow> report_window \<Rightarrow> report_window" where
  "position_sync_step cid pos reports =
     (let inner = (case reports (PlayerID pos) of None \<Rightarrow> Map.empty | Some m \<Rightarrow> m)
      in reports(PlayerID pos \<mapsto> inner(cid \<mapsto> pos)))"

definition handlePositionSync ::
  "GameServer \<Rightarrow> string \<Rightarrow> parse_error + PositionSyncData \<Rightarrow> GameServer" where
  "handlePositionSync s cid msg =
     (case msg of
        Inl err \<Rightarrow> s
      | Inr syncData \<Rightarrow>
          s\<lparr>positionReports := fold (position_sync_step cid) (Positions syncData) (positionReports s)\<rparr>)"

text \<open>The report stored for an entity and an observer, if any.\<close>

definition window_lookup :: "report_window \<Rightarrow> string \<Rightarrow> string \<Rightarrow> PositionData option" where
  "window_lookup reports entity observer =
     (case reports entity of None \<Rightarrow> None | Some m \<Rightarrow> m observer)"

section \<open>The clustering loops compute the seed-relative clustering\<close>

text \<open>
  The inner loop, started at index \<open>j\<close> with flags \<open>used\<close>, appends exactly the
  unflagged reports from \<open>j\<close> on that are similar to \<open>pos\<close>, in order, and flags them.
\<close>

lemma cluster_inner_fold:
  "length used = length positions \<Longrightarrow>
   fold (cluster_inner_step pa positions pos) [j ..< length positions] (cluster, used) =
     (cluster @ map (nth positions)
         (filter (\<lambda>k. \<not> used ! k \<and> isSimilar pa pos (positions ! k)) [j ..< length positions]),
      map (\<lambda>k. used ! k \<or> (j \<le> k \<and> isSimilar pa pos (positions ! k))) [0 ..< length positions])"
proof (induction "length positions - j" arbitrary: j cluster used)
  case 0
  then have le: "length positions \<le> j" by simp
  moreover have "map (\<lambda>k. used ! k \<or> (j \<le> k \<and> isSimilar pa pos (positions ! k))) [0 ..< length positions] = used"
    using 0 by (intro nth_equalityI) auto
  ultimately show ?case by simp
next
  case (Suc d)
  then have jlt: "j < length positions" by simp
  then have upt: "[j ..< length positions] = j # [Suc j ..< length positions]"
    by (simp add: upt_conv_Cons)
  let ?n = "length positions"
  let ?sim = "\<lambda>k. isSimilar pa pos (positions ! k)"
  show ?case
  proof (cases "\<not> used ! j \<and> ?sim j")
    case True
    let ?u = "used[j := True]"
    have len: "length ?u = ?n" using Suc.prems by simp
    have d: "d = ?n - Suc j" using Suc.hyps(2) by simp
    have step: "cluster_inner_step pa positions pos j (cluster, used) = (cluster @ [positions ! j], ?u)"
      using True by (simp add: cluster_inner_step_def)
    have f: "filter (\<lambda>k. \<not> ?u ! k \<and> ?sim k) [Suc j ..< ?n] = filter (\<lambda>k. \<not> used ! k \<and> ?sim k) [Suc j ..< ?n]"
      by (rule filter_cong) auto
    have m: "map (\<lambda>k. ?u ! k \<or> (Suc j \<le> k \<and> ?sim k)) [0 ..< ?n] = map (\<lambda>k. used ! k \<or> (j \<le> k \<and> ?sim k)) [0 ..< ?n]"
      using True Suc.prems jlt by (intro map_cong) (auto simp: nth_list_update le_Suc_eq)
    show ?thesis
      using Suc.hyps(1)[OF d len, of "cluster @ [positions ! j]"] True
      by (simp add: upt step f m)
  next
    case False
    have d: "d = ?n - Suc j" using Suc.hyps(2) by simp
    have step: "cluster_inner_step pa positions pos j (cluster, used) = (cluster, used)"
      using False by (auto simp add: cluster_inner_step_def)
    have m: "map (\<lambda>k. used ! k \<or> (Suc j \<le> k \<and> ?sim k)) [0 ..< ?n] = map (\<lambda>k. used ! k \<or> (j \<le> k \<and> ?sim k)) [0 ..< ?n]"
      using False by (intro map_cong) (auto simp: Suc_le_eq order_le_less)
    show ?thesis
      using Suc.hyps(1)[OF d Suc.prems, of cluster] False
      by (simp add: upt step m)
  qed
qed

text \<open>
  The outer loop, started at index \<open>i\<close>, appends the seed-relative clustering of the
  reports from \<open>i\<close> on that are not flagged yet.
\<close>

lemma cluster_outer_fold:
  "length used = length positions \<Longrightarrow>
   fst (fold (cluster_outer_step pa positions) [i ..< length positions] (clusters, used)) =
     clusters @ seed_clusters pa
        (map (nth positions) (filter (\<lambda>k. \<not> used ! k) [i ..< length positions]))"
proof (induction "length positions - i" arbitrary: i clusters used)
  case 0
  then show ?case by simp
next
  case (Suc d)
  let ?n = "length positions"
  have ilt: "i < ?n" using Suc.hyps(2) by simp
  then have upt: "[i ..< ?n] = i # [Suc i ..< ?n]" by (simp add: upt_conv_Cons)
  have d: "d = ?n - Suc i" using Suc.hyps(2) by simp
  show ?case
  proof (cases "used ! i")
    case True
    have step: "cluster_outer_step pa positions i (clusters, used) = (clusters, used)"
      using True by (simp add: cluster_outer_step_def)
    show ?thesis
      using Suc.hyps(1)[OF d Suc.prems, of clusters] True by (simp add: upt step)
  next
    case False
    let ?pos = "positions ! i"
    let ?sim = "\<lambda>k. isSimilar pa ?pos (positions ! k)"
    let ?u = "used[i := True]"
    let ?u' = "map (\<lambda>k. ?u ! k \<or> (Suc i \<le> k \<and> ?sim k)) [0 ..< ?n]"
    let ?R = "filter (\<lambda>k. \<not> used ! k) [Suc i ..< ?n]"
    let ?cluster = "?pos # map (nth positions) (filter ?sim ?R)"
    have len: "length ?u = ?n" using Suc.prems by simp
    have f1: "filter (\<lambda>k. \<not> ?u ! k \<and> ?sim k) [Suc i ..< ?n] = filter ?sim ?R"
      unfolding filter_filter by (rule filter_cong) auto
    have step: "cluster_outer_step pa positions i (clusters, used) = (clusters @ [?cluster], ?u')"
      using False cluster_inner_fold[OF len, of pa ?pos "Suc i" "[?pos]"]
      by (simp add: cluster_outer_step_def f1 Let_def)
    have len': "length ?u' = ?n" by simp
    have f2: "filter (\<lambda>k. \<not> ?u' ! k) [Suc i ..< ?n] = filter (\<lambda>k. \<not> ?sim k) ?R"
      unfolding filter_filter by (rule filter_cong) auto
    have "fst (fold (cluster_outer_step pa positions) [i ..< ?n] (clusters, used)) =
          (clusters @ [?cluster]) @ seed_clusters pa (map (nth positions) (filter (\<lambda>k. \<not> ?sim k) ?R))"
      using Suc.hyps(1)[OF d len', of "clusters @ [?cluster]"] by (simp add: upt step f2)
    moreover have "map (nth positions) (filter (\<lambda>k. \<not> used ! k) [i ..< ?n]) = ?pos # map (nth positions) ?R"
      using False by (simp add: upt)
    ultimately show ?thesis
      by (simp add: filter_map o_def)
  qed
qed

lemma clusterPositions_seed_clusters:
  "clusterPositions pa positions = seed_clusters pa positions"
proof -
  have "filter (\<lambda>k. \<not> replicate (length positions) False ! k) [0 ..< length positions] = [0 ..< length positions]"
    by (simp add: filter_id_conv)
  then show ?thesis
    unfolding clusterPositions_def
    using cluster_outer_fold[of "replicate (length positions) False" positions pa 0 "[]"]
    by (simp add: map_nth)
qed

text \<open>For a threshold that is not negative, the comparison of the distance is a comparison of squares.\<close>

lemma isSimilar_squares:
  "0 \<le> epsilon pa \<Longrightarrow>
   isSimilar pa p1 p2 \<longleftrightarrow> (X p1 - X p2) ^ 2 + (Y p1 - Y p2) ^ 2 \<le> (epsilon pa) ^ 2"
proof -
  assume e: "0 \<le> epsilon pa"
  have "sqrt ((X p1 - X p2) ^ 2 + (Y p1 - Y p2) ^ 2) \<le> epsilon pa \<longleftrightarrow>
        sqrt ((X p1 - X p2) ^ 2 + (Y p1 - Y p2) ^ 2) \<le> sqrt ((epsilon pa) ^ 2)"
    using e by simp
  then show ?thesis
    by (simp only: isSimilar_def Let_def real_sqrt_le_iff)
qed

section \<open>Properties of the seed-relative clustering\<close>

lemma seed_clusters_members_nonempty:
  "c \<in> set (seed_clusters pa ps) \<Longrightarrow> c \<noteq> []"
  by (induction pa ps rule: seed_clusters.induct) auto

lemma seed_clusters_Nil_iff:
  "seed_clusters pa ps = [] \<longleftrightarrow> ps = []"
  by (cases ps) simp_all

lemma mset_concat_seed_clusters:
  "mset (concat (seed_clusters pa ps)) = mset ps"
proof (induction pa ps rule: seed_clusters.induct)
  case (1 pa)
  then show ?case by simp
next
  case (2 pa seed rest)
  have "mset (filter (isSimilar pa seed) rest) + mset (filter (\<lambda>p. \<not> isSimilar pa seed p) rest) = mset rest"
    by simp
  with 2 show ?case by (simp add: add.assoc)
qed

lemma subseq_seeds:
  "subseq (map hd (seed_clusters pa ps)) ps"
proof (induction pa ps rule: seed_clusters.induct)
  case (1 pa)
  then show ?case by simp
next
  case (2 pa seed rest)
  have "subseq (filter (\<lambda>p. \<not> isSimilar pa seed p) rest) rest" by simp
  with 2 have "subseq (map hd (seed_clusters pa (filter (\<lambda>p. \<not> isSimilar pa seed p) rest))) rest"
    by (rule subseq_order.trans)
  then show ?case by simp
qed

text \<open>Every member of a cluster other than its seed is within \<open>epsilon\<close> of the seed.\<close>

lemma seed_clusters_seed_relative:
  "c \<in> set (seed_clusters pa ps) \<Longrightarrow> m \<in> set (tl c) \<Longrightarrow> isSimilar pa (hd c) m"
  by (induction pa ps rule: seed_clusters.induct) auto

section \<open>The selection and averaging loops\<close>

text \<open>The three running sums of \<open>averagePosition\<close>.\<close>

lemma fold_sums:
  "fold (\<lambda>pos (sumX, sumY, sumTime).
           (sumX + X pos, sumY + Y pos, sumTime + PositionData.GameTime pos)) ps (a, b, c) =
   (a + sum_list (map X ps), b + sum_list (map Y ps),
    c + sum_list (map PositionData.GameTime ps))"
  by (induction ps arbitrary: a b c) (simp_all add: add.assoc)

text \<open>
  The selection loop returns a cluster \<open>w\<close> such that every cluster before it is strictly
  smaller and every cluster after it is no larger: the first of the largest clusters.
\<close>

lemma fold_max_cluster_step_split:
  "\<exists>pre w post. c0 # cs = pre @ w # post \<and> fold max_cluster_step cs c0 = w \<and>
      (\<forall>c \<in> set pre. length c < length w) \<and> (\<forall>c \<in> set post. length c \<le> length w)"
proof (induction cs rule: rev_induct)
  case Nil
  have "[c0] = [] @ c0 # []" by simp
  then show ?case by fastforce
next
  case (snoc x xs)
  then obtain pre w post where split: "c0 # xs = pre @ w # post"
    and w: "fold max_cluster_step xs c0 = w"
    and before: "\<forall>c \<in> set pre. length c < length w"
    and after: "\<forall>c \<in> set post. length c \<le> length w"
    by blast
  show ?case
  proof (cases "length x > length w")
    case True
    have 1: "c0 # xs @ [x] = (pre @ w # post) @ x # []"
      using split by simp
    have 2: "fold max_cluster_step (xs @ [x]) c0 = x"
      using True w by (simp add: max_cluster_step_def)
    have 3: "\<forall>c \<in> set (pre @ w # post). length c < length x"
      using True before after by auto
    show ?thesis
      using 1 2 3 by (intro exI[of _ "pre @ w # post"] exI[of _ x] exI[of _ "[]"]) simp
  next
    case False
    have 1: "c0 # xs @ [x] = pre @ w # (post @ [x])"
      using split by simp
    have 2: "fold max_cluster_step (xs @ [x]) c0 = w"
      using False w by (simp add: max_cluster_step_def)
    have 3: "\<forall>c \<in> set (post @ [x]). length c \<le> length w"
      using False after by auto
    show ?thesis
      using 1 2 3 before by (intro exI[of _ pre] exI[of _ w] exI[of _ "post @ [x]"]) simp
  qed
qed

lemma fold_max_cluster_step_first_largest:
  "\<exists>pre w post. c0 # cs = pre @ w # post \<and> fold max_cluster_step (c0 # cs) c0 = w \<and>
      (\<forall>c \<in> set pre. length c < length w) \<and> (\<forall>c \<in> set post. length c \<le> length w)"
proof -
  have "fold max_cluster_step (c0 # cs) c0 = fold max_cluster_step cs c0"
    by (simp add: max_cluster_step_def)
  then show ?thesis
    using fold_max_cluster_step_split[of c0 cs] by simp
qed

text \<open>What \<open>averagePosition\<close> returns on a slice that is not empty.\<close>

lemma averagePosition_nonempty:
  "positions \<noteq> [] \<Longrightarrow>
   averagePosition pa positions =
     Some \<lparr>PlayerID = PlayerID (hd positions),
           X = sum_list (map X positions) / real (length positions),
           Y = sum_list (map Y positions) / real (length positions),
           GameTime = int64_div (sum_list (map PositionData.GameTime positions))
                                (of_nat (length positions))\<rparr>"
  by (simp add: averagePosition_def fold_sums hd_conv_nth Let_def)

text \<open>On two or more reports, \<open>Arbitrate\<close> averages the first of the largest clusters.\<close>

lemma Arbitrate_many:
  assumes "2 \<le> length positions"
  shows "\<exists>pre w post. clusterPositions pa positions = pre @ w # post \<and>
      (\<forall>c \<in> set pre. length c < length w) \<and> (\<forall>c \<in> set post. length c \<le> length w) \<and>
      Arbitrate pa positions = Inr (averagePosition pa w)"
proof -
  from assms have ne: "positions \<noteq> []" by auto
  then have "clusterPositions pa positions \<noteq> []"
    by (simp add: clusterPositions_seed_clusters seed_clusters_Nil_iff)
  then obtain c0 cs where cs: "clusterPositions pa positions = c0 # cs"
    by (cases "clusterPositions pa positions") auto
  obtain pre w post where split: "c0 # cs = pre @ w # post"
    and w: "fold max_cluster_step (c0 # cs) c0 = w"
    and before: "\<forall>c \<in> set pre. length c < length w"
    and after: "\<forall>c \<in> set post. length c \<le> length w"
    using fold_max_cluster_step_first_largest[of c0 cs] by blast
  have "Arbitrate pa positions = Inr (averagePosition pa (fold max_cluster_step (c0 # cs) c0))"
    using assms ne by (simp add: Arbitrate_def cs Let_def)
  then have "Arbitrate pa positions = Inr (averagePosition pa w)"
    by (simp only: w)
  with split before after show ?thesis
    unfolding cs by blast
qed

text \<open>
  Reading the \<open>int64\<close> arithmetic of the time average in the integers: where the sum
  of the times fits 64 bits, the quotient is the truncated quotient of the integer sum.
\<close>

lemma sint_int64_of_int:
  "- (2 ^ 63) \<le> k \<Longrightarrow> k < 2 ^ 63 \<Longrightarrow> sint (word_of_int k :: int64) = k"
  by (simp add: sint_sbintrunc' signed_take_bit_int_eq_self)

lemma sint_int64_of_nat:
  "n < 2 ^ 63 \<Longrightarrow> sint (of_nat n :: int64) = int n"
  using sint_int64_of_int[of "int n"] by simp

lemma sum_list_int64:
  "sum_list (map f ps) = (word_of_int (sum_list (map (\<lambda>p. sint (f p)) ps)) :: int64)"
  by (induction ps) simp_all

lemma sdiv_nat_bounds:
  "min 0 k \<le> k sdiv int n \<and> k sdiv int n \<le> max 0 k"
proof (cases "n = 0")
  case True
  then show ?thesis by simp
next
  case False
  then have n: "0 < int n" by simp
  have q: "0 \<le> \<bar>k\<bar> div int n" "\<bar>k\<bar> div int n \<le> \<bar>k\<bar>"
    using n zdiv_mono2[of "\<bar>k\<bar>" 1 "int n"] by (simp_all add: pos_imp_zdiv_nonneg_iff)
  show ?thesis
  proof (cases "k < 0")
    case True
    then show ?thesis using q n by (simp add: signed_divide_int_def)
  next
    case False
    then show ?thesis using q n by (cases "k = 0") (simp_all add: signed_divide_int_def)
  qed
qed

lemma int64_div_sum_list:
  fixes f :: "'a \<Rightarrow> int64"
  assumes "length ps < 2 ^ 63"
    and "- (2 ^ 63) \<le> sum_list (map (\<lambda>p. sint (f p)) ps)"
    and "sum_list (map (\<lambda>p. sint (f p)) ps) < 2 ^ 63"
  shows "sint (int64_div (sum_list (map f ps)) (of_nat (length ps))) =
         sum_list (map (\<lambda>p. sint (f p)) ps) sdiv int (length ps)"
proof -
  let ?S = "sum_list (map (\<lambda>p. sint (f p)) ps)"
  have s: "sint (sum_list (map f ps)) = ?S"
    using assms(2,3) by (subst sum_list_int64) (rule sint_int64_of_int)
  have n: "sint (of_nat (length ps) :: int64) = int (length ps)"
    using assms(1) by (rule sint_int64_of_nat)
  have "min 0 ?S \<le> ?S sdiv int (length ps) \<and> ?S sdiv int (length ps) \<le> max 0 ?S"
    by (rule sdiv_nat_bounds)
  then have "- (2 ^ 63) \<le> ?S sdiv int (length ps)" "?S sdiv int (length ps) < 2 ^ 63"
    using assms(2,3) by auto
  then show ?thesis
    by (simp add: int64_div_def s n sint_int64_of_int)
qed

section \<open>The arbitrator\<close>

text \<open>
  C5. \<open>Arbitrate\<close> on no report returns \<open>nil\<close>; on exactly one report it returns that
  report, with its player id, coordinates and game time as they came in.
\<close>

theorem Arbitrate_zero_one:
  "Arbitrate pa [] = Inr None \<and> Arbitrate pa [p] = Inr (Some p)"
  by (simp add: Arbitrate_def)

text \<open>
  C2. The clusters that the nested loops of \<open>clusterPositions\<close> build are the
  seed-relative ones: scanning in input order, the first report not yet assigned seeds a
  cluster, a later unassigned report joins it exactly when its Euclidean distance to that
  seed is at most \<open>epsilon\<close>, and no report is compared with another member or a
  centroid. For the reports \<open>A = (0, 0)\<close>, \<open>B = (0, 0.9)\<close>, \<open>C = (0, 1.8)\<close> in this
  order and \<open>epsilon = 1\<close>, the clusters are \<open>[A, B]\<close> and \<open>[C]\<close>, and the arbitrated
  position is \<open>(0, 0.45)\<close>.
\<close>

theorem clusterPositions_seed_relative:
  "clusterPositions pa positions = seed_clusters pa positions \<and>
   (let A = \<lparr>PlayerID = e, X = 0, Y = 0, GameTime = tA\<rparr>;
        B = \<lparr>PlayerID = e, X = 0, Y = 0.9, GameTime = tB\<rparr>;
        C = \<lparr>PlayerID = e, X = 0, Y = 1.8, GameTime = tC\<rparr>;
        pa1 = NewPositionArbitrator 1
    in clusterPositions pa1 [A, B, C] = [ [A, B], [C]] \<and>
       Arbitrate pa1 [A, B, C] =
         Inr (Some \<lparr>PlayerID = e, X = 0, Y = 0.45, GameTime = int64_div (tA + tB) 2\<rparr>))"
proof -
  define A where "A = \<lparr>PlayerID = e, X = 0, Y = 0, GameTime = tA\<rparr>"
  define B where "B = \<lparr>PlayerID = e, X = 0, Y = 0.9, GameTime = tB\<rparr>"
  define C where "C = \<lparr>PlayerID = e, X = 0, Y = 1.8, GameTime = tC\<rparr>"
  define pa1 where "pa1 = NewPositionArbitrator 1"
  have sim: "isSimilar pa1 A B" "\<not> isSimilar pa1 A C"
    by (simp_all add: isSimilar_squares pa1_def NewPositionArbitrator_def A_def B_def C_def
          power2_eq_square)
  have cl: "clusterPositions pa1 [A, B, C] = [ [A, B], [C]]"
    by (simp add: clusterPositions_seed_clusters sim)
  have av: "averagePosition pa1 [A, B] =
      Some \<lparr>PlayerID = e, X = 0, Y = 0.45, GameTime = int64_div (tA + tB) 2\<rparr>"
    by (simp add: averagePosition_nonempty A_def B_def)
  have arb: "Arbitrate pa1 [A, B, C] =
      Inr (Some \<lparr>PlayerID = e, X = 0, Y = 0.45, GameTime = int64_div (tA + tB) 2\<rparr>)"
    by (simp add: Arbitrate_def cl max_cluster_step_def av)
  have "clusterPositions pa positions = seed_clusters pa positions"
    by (rule clusterPositions_seed_clusters)
  with cl arb show ?thesis
    unfolding Let_def A_def B_def C_def pa1_def by blast
qed

text \<open>
  C3. On two or more reports, \<open>Arbitrate\<close> averages a cluster \<open>w\<close> of largest
  membership, and among the largest the one formed first: every cluster formed before
  \<open>w\<close> is strictly smaller, every cluster formed after it is no larger. Clusters are
  formed in the order of their seeds in the input (the seeds, in cluster order, are a
  subsequence of the input).
\<close>

theorem Arbitrate_first_largest:
  assumes "2 \<le> length positions"
  shows "\<exists>pre w post.
      clusterPositions pa positions = pre @ w # post \<and>
      (\<forall>c \<in> set pre. length c < length w) \<and>
      (\<forall>c \<in> set post. length c \<le> length w) \<and>
      Arbitrate pa positions = Inr (averagePosition pa w) \<and>
      subseq (map hd (clusterPositions pa positions)) positions"
  using Arbitrate_many[OF assms, of pa] subseq_seeds[of pa positions]
  by (simp add: clusterPositions_seed_clusters)

text \<open>
  Five reports forming clusters of sizes one, two and two: the first cluster is strictly
  smaller, and the tie between the other two goes to the one seeded first.
\<close>

theorem Arbitrate_first_largest_witness:
  "let A = \<lparr>PlayerID = ''Alice'', X = 0, Y = 0, GameTime = 100\<rparr>;
       B = \<lparr>PlayerID = ''Alice'', X = 10, Y = 0, GameTime = 100\<rparr>;
       C = \<lparr>PlayerID = ''Alice'', X = 20, Y = 0, GameTime = 100\<rparr>;
       D = \<lparr>PlayerID = ''Alice'', X = 10, Y = 0.5, GameTime = 100\<rparr>;
       E = \<lparr>PlayerID = ''Alice'', X = 20, Y = 0.5, GameTime = 100\<rparr>;
       pa1 = NewPositionArbitrator 1
   in 2 \<le> length [A, B, C, D, E] \<and>
      (\<exists>pre w post.
          clusterPositions pa1 [A, B, C, D, E] = pre @ w # post \<and>
          (\<forall>c \<in> set pre. length c < length w) \<and>
          (\<forall>c \<in> set post. length c \<le> length w) \<and>
          Arbitrate pa1 [A, B, C, D, E] = Inr (averagePosition pa1 w) \<and>
          subseq (map hd (clusterPositions pa1 [A, B, C, D, E])) [A, B, C, D, E]) \<and>
      clusterPositions pa1 [A, B, C, D, E] = [ [A], [B, D], [C, E]] \<and>
      Arbitrate pa1 [A, B, C, D, E] = Inr (averagePosition pa1 [B, D])"
proof -
  define A where "A = \<lparr>PlayerID = ''Alice'', X = 0, Y = 0, GameTime = 100\<rparr>"
  define B where "B = \<lparr>PlayerID = ''Alice'', X = 10, Y = 0, GameTime = 100\<rparr>"
  define C where "C = \<lparr>PlayerID = ''Alice'', X = 20, Y = 0, GameTime = 100\<rparr>"
  define D where "D = \<lparr>PlayerID = ''Alice'', X = 10, Y = 0.5, GameTime = 100\<rparr>"
  define E where "E = \<lparr>PlayerID = ''Alice'', X = 20, Y = 0.5, GameTime = 100\<rparr>"
  define pa1 where "pa1 = NewPositionArbitrator 1"
  have len: "2 \<le> length [A, B, C, D, E]" by simp
  note inst = Arbitrate_first_largest[OF len, of pa1]
  have sim: "\<not> isSimilar pa1 A B" "\<not> isSimilar pa1 A C" "\<not> isSimilar pa1 A D"
    "\<not> isSimilar pa1 A E" "\<not> isSimilar pa1 B C" "isSimilar pa1 B D" "\<not> isSimilar pa1 B E"
    "isSimilar pa1 C E"
    by (simp_all add: isSimilar_squares pa1_def NewPositionArbitrator_def
          A_def B_def C_def D_def E_def power2_eq_square)
  have cl: "clusterPositions pa1 [A, B, C, D, E] = [ [A], [B, D], [C, E]]"
    by (simp add: clusterPositions_seed_clusters sim)
  have arb: "Arbitrate pa1 [A, B, C, D, E] = Inr (averagePosition pa1 [B, D])"
    by (simp add: Arbitrate_def cl max_cluster_step_def)
  from len inst cl arb show ?thesis
    unfolding Let_def A_def B_def C_def D_def E_def pa1_def by blast
qed

text \<open>
  C4. The arbitrated output for a cluster that is not empty: \<open>x\<close> and \<open>y\<close> are the
  arithmetic means of the members' \<open>x\<close> and \<open>y\<close>; the game time is the \<open>int64\<close> sum of
  the members' game times divided by the member count with Go's truncating division
  (where the sum of the times fits 64 bits, this is the truncated quotient of the integer
  sum); the player id is that of the first member, hence the shared id when all members
  carry the same one.
\<close>

theorem averagePosition_mean:
  assumes "positions \<noteq> []"
  shows "\<exists>r. averagePosition pa positions = Some r \<and>
      X r = sum_list (map X positions) / real (length positions) \<and>
      Y r = sum_list (map Y positions) / real (length positions) \<and>
      PositionData.GameTime r =
        int64_div (sum_list (map PositionData.GameTime positions)) (of_nat (length positions)) \<and>
      (length positions < 2 ^ 63 \<and>
       - (2 ^ 63) \<le> sum_list (map (\<lambda>p. sint (PositionData.GameTime p)) positions) \<and>
       sum_list (map (\<lambda>p. sint (PositionData.GameTime p)) positions) < 2 ^ 63 \<longrightarrow>
         sint (PositionData.GameTime r) =
           sum_list (map (\<lambda>p. sint (PositionData.GameTime p)) positions) sdiv int (length positions)) \<and>
      PlayerID r = PlayerID (hd positions) \<and>
      ((\<forall>p \<in> set positions. PlayerID p = e) \<longrightarrow> PlayerID r = e)"
proof -
  let ?r = "\<lparr>PlayerID = PlayerID (hd positions),
           X = sum_list (map X positions) / real (length positions),
           Y = sum_list (map Y positions) / real (length positions),
           GameTime = int64_div (sum_list (map PositionData.GameTime positions))
                                (of_nat (length positions))\<rparr>"
  have r: "averagePosition pa positions = Some ?r"
    using assms by (rule averagePosition_nonempty)
  have t: "sint (PositionData.GameTime ?r) =
           sum_list (map (\<lambda>p. sint (PositionData.GameTime p)) positions) sdiv int (length positions)"
    if "length positions < 2 ^ 63"
      and "- (2 ^ 63) \<le> sum_list (map (\<lambda>p. sint (PositionData.GameTime p)) positions)"
      and "sum_list (map (\<lambda>p. sint (PositionData.GameTime p)) positions) < 2 ^ 63"
    using int64_div_sum_list[OF that] by simp
  have i: "PlayerID ?r = e" if "\<forall>p \<in> set positions. PlayerID p = e"
    using that assms by simp
  show ?thesis
    using r t i by (intro exI[of _ ?r]) simp
qed

theorem averagePosition_mean_witness:
  "let A = \<lparr>PlayerID = ''Alice'', X = 10, Y = 0, GameTime = - 3\<rparr>;
       B = \<lparr>PlayerID = ''Alice'', X = 10.3, Y = 0, GameTime = 0\<rparr>;
       pa1 = NewPositionArbitrator 1
   in [A, B] \<noteq> [] \<and>
      (\<forall>p \<in> set [A, B]. PlayerID p = ''Alice'') \<and>
      length [A, B] < 2 ^ 63 \<and>
      - (2 ^ 63) \<le> sum_list (map (\<lambda>p. sint (PositionData.GameTime p)) [A, B]) \<and>
      sum_list (map (\<lambda>p. sint (PositionData.GameTime p)) [A, B]) < 2 ^ 63 \<and>
      (\<exists>r. averagePosition pa1 [A, B] = Some r \<and> X r = 10.15 \<and> Y r = 0 \<and>
           PositionData.GameTime r = - 1 \<and> sint (PositionData.GameTime r) = - 1 \<and>
           PlayerID r = ''Alice'')"
proof -
  define ps where "ps =
     [\<lparr>PlayerID = ''Alice'', X = 10, Y = 0, GameTime = - 3\<rparr>,
      \<lparr>PlayerID = ''Alice'', X = 10.3, Y = 0, GameTime = 0\<rparr>]"
  define pa1 where "pa1 = NewPositionArbitrator 1"
  have ne: "ps \<noteq> []" by (simp add: ps_def)
  have ids: "\<forall>p \<in> set ps. PlayerID p = ''Alice''" by (simp add: ps_def)
  have len: "length ps < 2 ^ 63" by (simp add: ps_def)
  have s: "sum_list (map (\<lambda>p. sint (PositionData.GameTime p)) ps) = - 3"
    by (simp add: ps_def)
  obtain r where r: "averagePosition pa1 ps = Some r"
    and x: "X r = sum_list (map X ps) / real (length ps)"
    and y: "Y r = sum_list (map Y ps) / real (length ps)"
    and t: "PositionData.GameTime r =
        int64_div (sum_list (map PositionData.GameTime ps)) (of_nat (length ps))"
    and ti: "length ps < 2 ^ 63 \<and>
       - (2 ^ 63) \<le> sum_list (map (\<lambda>p. sint (PositionData.GameTime p)) ps) \<and>
       sum_list (map (\<lambda>p. sint (PositionData.GameTime p)) ps) < 2 ^ 63 \<longrightarrow>
         sint (PositionData.GameTime r) =
           sum_list (map (\<lambda>p. sint (PositionData.GameTime p)) ps) sdiv int (length ps)"
    and i: "(\<forall>p \<in> set ps. PlayerID p = ''Alice'') \<longrightarrow> PlayerID r = ''Alice''"
    using averagePosition_mean[OF ne, of pa1 "''Alice''"] by blast
  have x': "X r = 10.15" using x by (simp add: ps_def)
  have y': "Y r = 0" using y by (simp add: ps_def)
  have t': "PositionData.GameTime r = - 1"
    using t by (simp add: ps_def int64_div_def signed_divide_int_def)
  have ti': "sint (PositionData.GameTime r) = - 1"
    using ti len s by (simp add: ps_def signed_divide_int_def)
  have i': "PlayerID r = ''Alice''" using i ids by blast
  have "\<exists>r. averagePosition pa1 ps = Some r \<and> X r = 10.15 \<and> Y r = 0 \<and>
           PositionData.GameTime r = - 1 \<and> sint (PositionData.GameTime r) = - 1 \<and>
           PlayerID r = ''Alice''"
    using r x' y' t' ti' i' by blast
  with ne ids len s show ?thesis
    unfolding Let_def ps_def pa1_def by simp
qed

text \<open>
  C10. On a sequence of reports that is not empty, \<open>Arbitrate\<close> returns a report, never
  \<open>nil\<close> and never a panic; it returns \<open>nil\<close> exactly on the empty sequence. The
  clusters partition the input (together they hold every report exactly once), and no
  cluster is empty.
\<close>

theorem Arbitrate_nonempty_some:
  "(positions \<noteq> [] \<longrightarrow> (\<exists>r. Arbitrate pa positions = Inr (Some r))) \<and>
   (Arbitrate pa positions = Inr None \<longleftrightarrow> positions = []) \<and>
   mset (concat (clusterPositions pa positions)) = mset positions \<and>
   [] \<notin> set (clusterPositions pa positions)"
proof -
  have some: "\<exists>r. Arbitrate pa positions = Inr (Some r)" if ne: "positions \<noteq> []"
  proof (cases "length positions = 1")
    case True
    then show ?thesis by (simp add: Arbitrate_def)
  next
    case False
    with ne have "2 \<le> length positions"
      by (cases positions) (auto simp: Suc_le_eq)
    then obtain pre w post where cl: "clusterPositions pa positions = pre @ w # post"
      and arb: "Arbitrate pa positions = Inr (averagePosition pa w)"
      using Arbitrate_many[of positions pa] by blast
    have "w \<in> set (seed_clusters pa positions)"
      using cl by (simp add: clusterPositions_seed_clusters)
    then have "w \<noteq> []" by (rule seed_clusters_members_nonempty)
    then show ?thesis
      by (simp add: arb averagePosition_nonempty)
  qed
  have none: "Arbitrate pa positions = Inr None \<longleftrightarrow> positions = []"
  proof
    assume "Arbitrate pa positions = Inr None"
    then show "positions = []" using some by fastforce
  next
    assume "positions = []"
    then show "Arbitrate pa positions = Inr None" by (simp add: Arbitrate_def)
  qed
  have part: "mset (concat (clusterPositions pa positions)) = mset positions"
    by (simp add: clusterPositions_seed_clusters mset_concat_seed_clusters)
  have nonempty: "[] \<notin> set (clusterPositions pa positions)"
    using seed_clusters_members_nonempty[of "[]" pa positions]
    by (auto simp: clusterPositions_seed_clusters)
  from some none part nonempty show ?thesis by blast
qed

theorem Arbitrate_nonempty_some_witness:
  "let A = \<lparr>PlayerID = ''Alice'', X = 0, Y = 0, GameTime = 100\<rparr>;
       B = \<lparr>PlayerID = ''Alice'', X = 10, Y = 0, GameTime = 100\<rparr>;
       pa1 = NewPositionArbitrator 1
   in [A, B] \<noteq> [] \<and> (\<exists>r. Arbitrate pa1 [A, B] = Inr (Some r))"
  using Arbitrate_nonempty_some[of
      "[\<lparr>PlayerID = ''Alice'', X = 0, Y = 0, GameTime = 100\<rparr>,
        \<lparr>PlayerID = ''Alice'', X = 10, Y = 0, GameTime = 100\<rparr>]" "NewPositionArbitrator 1"]
  unfolding Let_def by blast

section \<open>The observer\<close>

text \<open>An \<open>int64\<close> difference that does not overflow is the integer difference.\<close>

lemma sint_int64_diff:
  "- (2 ^ 63) \<le> sint a - sint b \<Longrightarrow> sint a - sint b < 2 ^ 63 \<Longrightarrow>
   sint (a - b :: int64) = sint a - sint b"
  by (simp add: sint_word_ariths signed_take_bit_int_eq_self)

text \<open>Two square roots that the examples below need.\<close>

lemma sqrt_quarter: "sqrt (1 / 4) = 1 / 2"
  using real_sqrt_abs[of "1 / 2"] by (simp add: power2_eq_square)

lemma sqrt_25: "sqrt 25 = 5"
  using real_sqrt_abs[of 5] by simp

text \<open>
  C8. \<open>predictPosition\<close> only reads the state it is given: in the model it is a function
  of the state and the query time whose result is the pair of coordinates, and the state
  is not among its results. For every state and every time \<open>t\<close>, also one before the
  checkpoint, it returns position plus velocity times \<open>(t - checkpoint) / 1000\<close>,
  componentwise, where \<open>t - checkpoint\<close> is the \<open>int64\<close> difference; when that
  difference does not overflow it is the integer difference of the two times.
\<close>

theorem predictPosition_formula:
  "predictPosition p t =
     (LocalPlayerState.X p + VelocityX p * (real_of_int (sint (t - LastUpdateTime p)) / 1000),
      LocalPlayerState.Y p + VelocityY p * (real_of_int (sint (t - LastUpdateTime p)) / 1000)) \<and>
   (- (2 ^ 63) \<le> sint t - sint (LastUpdateTime p) \<and> sint t - sint (LastUpdateTime p) < 2 ^ 63 \<longrightarrow>
    predictPosition p t =
     (LocalPlayerState.X p + VelocityX p * (real_of_int (sint t - sint (LastUpdateTime p)) / 1000),
      LocalPlayerState.Y p + VelocityY p * (real_of_int (sint t - sint (LastUpdateTime p)) / 1000)))"
  by (simp add: predictPosition_def float64_of_int64_def Let_def sint_int64_diff)

text \<open>A query one second before the checkpoint extrapolates backwards.\<close>

theorem predictPosition_formula_witness:
  "let p = \<lparr>LocalPlayerState.PlayerID = ''Alice'', X = 1, Y = 2, VelocityX = 10, VelocityY = - 10,
             LastUpdateTime = 2000\<rparr>
   in - (2 ^ 63) \<le> sint (1000 :: int64) - sint (LastUpdateTime p) \<and>
      sint (1000 :: int64) - sint (LastUpdateTime p) < 2 ^ 63 \<and>
      predictPosition p 1000 = (- 9, 12)"
  using predictPosition_formula[of
      "\<lparr>LocalPlayerState.PlayerID = ''Alice'', X = 1, Y = 2, VelocityX = 10, VelocityY = - 10,
        LastUpdateTime = 2000\<rparr>" 1000]
  by (simp add: Let_def)

text \<open>
  C7. A move command for a tracked player first advances the state to the command's game
  time under the old velocity (the position becomes the position predicted for that
  time, the checkpoint becomes that time, the velocity is still the old one) and then
  overwrites the velocity with the direction vector times the movement speed. Predicting
  at the new checkpoint right afterwards gives the position just advanced to.
\<close>

theorem handleMoveCommand_tracked:
  assumes "localPlayers c (MoveData.PlayerID m) = Some p"
  shows "let t = MoveData.GameTime m;
             adv = updatePlayerPosition p t;
             new = adv\<lparr>VelocityX := VectorX m * moveSpeed c, VelocityY := VectorY m * moveSpeed c\<rparr>
         in handleMoveCommand c (Inr m) =
              c\<lparr>localPlayers := (localPlayers c)(MoveData.PlayerID m \<mapsto> new)\<rparr> \<and>
            (LocalPlayerState.X adv, LocalPlayerState.Y adv) = predictPosition p t \<and>
            LastUpdateTime adv = t \<and>
            VelocityX adv = VelocityX p \<and> VelocityY adv = VelocityY p \<and>
            LastUpdateTime new = t \<and>
            predictPosition new t = (LocalPlayerState.X adv, LocalPlayerState.Y adv)"
  using assms
  by (simp add: handleMoveCommand_def updatePlayerPosition_def predictPosition_def
        float64_of_int64_def Let_def)

text \<open>Alice moves right at speed 10 from the origin; at time 1000 she is told to move up.\<close>

theorem handleMoveCommand_tracked_witness:
  "let p0 = \<lparr>LocalPlayerState.PlayerID = ''Alice'', X = 0, Y = 0, VelocityX = 10, VelocityY = 0,
              LastUpdateTime = 0\<rparr>;
       c0 = \<lparr>clientID = ''client_0'', playerID = ''Alice'',
              localPlayers = [''Alice'' \<mapsto> p0], moveSpeed = 10\<rparr>;
       m0 = \<lparr>MoveData.PlayerID = ''Alice'', VectorX = 0, VectorY = 1, GameTime = 1000\<rparr>;
       new = \<lparr>LocalPlayerState.PlayerID = ''Alice'', X = 10, Y = 0, VelocityX = 0, VelocityY = 10,
               LastUpdateTime = 1000\<rparr>
   in localPlayers c0 (MoveData.PlayerID m0) = Some p0 \<and>
      handleMoveCommand c0 (Inr m0) = c0\<lparr>localPlayers := [''Alice'' \<mapsto> new]\<rparr> \<and>
      predictPosition new 1000 = (10, 0)"
proof -
  define p0 where "p0 = \<lparr>LocalPlayerState.PlayerID = ''Alice'', X = 0, Y = 0, VelocityX = 10,
      VelocityY = 0, LastUpdateTime = 0\<rparr>"
  define c0 where "c0 = \<lparr>clientID = ''client_0'', playerID = ''Alice'',
      localPlayers = [''Alice'' \<mapsto> p0], moveSpeed = 10\<rparr>"
  define m0 where "m0 = \<lparr>MoveData.PlayerID = ''Alice'', VectorX = 0, VectorY = 1, GameTime = 1000\<rparr>"
  have h: "localPlayers c0 (MoveData.PlayerID m0) = Some p0"
    by (simp add: c0_def m0_def)
  have adv: "updatePlayerPosition p0 1000 =
      \<lparr>LocalPlayerState.PlayerID = ''Alice'', X = 10, Y = 0, VelocityX = 10, VelocityY = 0,
       LastUpdateTime = 1000\<rparr>"
    by (simp add: updatePlayerPosition_def p0_def float64_of_int64_def)
  from h handleMoveCommand_tracked[OF h] adv show ?thesis
    unfolding Let_def
    by (simp add: c0_def m0_def p0_def)
qed

text \<open>
  C1. A move command naming a player the client does not track is dropped by the guard
  \<open>if !exists { return }\<close>: no state is created. On a fresh client, a move command for
  \<open>Bob\<close> leaves \<open>Bob\<close> untracked.
\<close>

theorem handleMoveCommand_unseen_counterexample:
  "localPlayers
     (handleMoveCommand (NewGameClient ''client_0'' ''Alice'')
        (Inr \<lparr>MoveData.PlayerID = ''Bob'', VectorX = 1, VectorY = 0, GameTime = 1000\<rparr>))
     ''Bob'' = None"
  by (simp add: handleMoveCommand_def NewGameClient_def)

text \<open>
  C1, as the code has it: handling a move command that names an untracked player leaves
  the client exactly as it was; the player stays untracked.
\<close>

theorem handleMoveCommand_unseen:
  "localPlayers c (MoveData.PlayerID m) = None \<Longrightarrow> handleMoveCommand c (Inr m) = c"
  by (simp add: handleMoveCommand_def)

theorem handleMoveCommand_unseen_witness:
  "localPlayers (NewGameClient ''client_0'' ''Alice'')
      (MoveData.PlayerID \<lparr>MoveData.PlayerID = ''Bob'', VectorX = 1, VectorY = 0, GameTime = 1000\<rparr>) = None \<and>
   handleMoveCommand (NewGameClient ''client_0'' ''Alice'')
      (Inr \<lparr>MoveData.PlayerID = ''Bob'', VectorX = 1, VectorY = 0, GameTime = 1000\<rparr>) =
     NewGameClient ''client_0'' ''Alice''"
proof -
  have h: "localPlayers (NewGameClient ''client_0'' ''Alice'')
      (MoveData.PlayerID \<lparr>MoveData.PlayerID = ''Bob'', VectorX = 1, VectorY = 0, GameTime = 1000\<rparr>) = None"
    by (simp add: NewGameClient_def)
  from h handleMoveCommand_unseen[OF h] show ?thesis by simp
qed

text \<open>
  C6. An authoritative position for a tracked player at game time \<open>t\<close>: when the
  Euclidean distance between the position predicted for \<open>t\<close> and the authoritative one
  is strictly above \<open>0.5\<close>, the client stores the authoritative \<open>x\<close> and \<open>y\<close> and sets
  the checkpoint to \<open>t\<close>, keeping the player id and both velocity components; when the
  distance is at or below \<open>0.5\<close>, the client is left exactly as it was. No other player's
  state changes in either case.
\<close>

theorem handlePositionUpdate_threshold:
  assumes "localPlayers c (PositionUpdateData.PlayerID u) = Some p"
  shows "handlePositionUpdate c (Inr u) =
     (if sqrt ((PositionUpdateData.X u - fst (predictPosition p (PositionUpdateData.GameTime u))) ^ 2 +
               (PositionUpdateData.Y u - snd (predictPosition p (PositionUpdateData.GameTime u))) ^ 2)
           > 0.5
      then c\<lparr>localPlayers := (localPlayers c)(PositionUpdateData.PlayerID u \<mapsto>
              \<lparr>LocalPlayerState.PlayerID = LocalPlayerState.PlayerID p,
               X = PositionUpdateData.X u, Y = PositionUpdateData.Y u,
               VelocityX = VelocityX p, VelocityY = VelocityY p,
               LastUpdateTime = PositionUpdateData.GameTime u\<rparr>)\<rparr>
      else c)"
  using assms
  by (cases p; cases "predictPosition p (PositionUpdateData.GameTime u)")
     (simp add: handlePositionUpdate_def Let_def power2_eq_square)

text \<open>
  With Alice predicted at \<open>(10, 0)\<close>: a correction to \<open>(10.5, 0)\<close>, at distance exactly
  \<open>0.5\<close>, changes nothing; one to \<open>(13, 4)\<close>, at distance \<open>5\<close>, snaps position and
  checkpoint and keeps the velocity. All the coordinates involved are binary fractions.
\<close>

theorem handlePositionUpdate_threshold_witness:
  "let p0 = \<lparr>LocalPlayerState.PlayerID = ''Alice'', X = 0, Y = 0, VelocityX = 10, VelocityY = 0,
              LastUpdateTime = 0\<rparr>;
       c0 = \<lparr>clientID = ''client_0'', playerID = ''Alice'',
              localPlayers = [''Alice'' \<mapsto> p0], moveSpeed = 10\<rparr>;
       near = \<lparr>PositionUpdateData.PlayerID = ''Alice'', X = 10.5, Y = 0, GameTime = 1000\<rparr>;
       far = \<lparr>PositionUpdateData.PlayerID = ''Alice'', X = 13, Y = 4, GameTime = 1000\<rparr>
   in localPlayers c0 ''Alice'' = Some p0 \<and>
      handlePositionUpdate c0 (Inr near) = c0 \<and>
      handlePositionUpdate c0 (Inr far) =
        c0\<lparr>localPlayers := [''Alice'' \<mapsto>
             \<lparr>LocalPlayerState.PlayerID = ''Alice'', X = 13, Y = 4, VelocityX = 10, VelocityY = 0,
              LastUpdateTime = 1000\<rparr>]\<rparr>"
proof -
  define p0 where "p0 = \<lparr>LocalPlayerState.PlayerID = ''Alice'', X = 0, Y = 0, VelocityX = 10,
      VelocityY = 0, LastUpdateTime = 0\<rparr>"
  define c0 where "c0 = \<lparr>clientID = ''client_0'', playerID = ''Alice'',
      localPlayers = [''Alice'' \<mapsto> p0], moveSpeed = 10\<rparr>"
  define near where "near = \<lparr>PositionUpdateData.PlayerID = ''Alice'', X = 10.5, Y = 0, GameTime = 1000\<rparr>"
  define far where "far = \<lparr>PositionUpdateData.PlayerID = ''Alice'', X = 13, Y = 4, GameTime = 1000\<rparr>"
  have pr: "predictPosition p0 1000 = (10, 0)"
    by (simp add: predictPosition_def p0_def float64_of_int64_def)
  have hn: "localPlayers c0 (PositionUpdateData.PlayerID near) = Some p0"
    by (simp add: c0_def near_def)
  have hf: "localPlayers c0 (PositionUpdateData.PlayerID far) = Some p0"
    by (simp add: c0_def far_def)
  have n: "handlePositionUpdate c0 (Inr near) = c0"
    using handlePositionUpdate_threshold[OF hn]
    by (simp add: near_def pr power2_eq_square sqrt_quarter)
  have f: "handlePositionUpdate c0 (Inr far) =
        c0\<lparr>localPlayers := [''Alice'' \<mapsto>
             \<lparr>LocalPlayerState.PlayerID = ''Alice'', X = 13, Y = 4, VelocityX = 10, VelocityY = 0,
              LastUpdateTime = 1000\<rparr>]\<rparr>"
  proof -
    have "handlePositionUpdate c0 (Inr far) =
        c0\<lparr>localPlayers := (localPlayers c0)(''Alice'' \<mapsto>
             \<lparr>LocalPlayerState.PlayerID = LocalPlayerState.PlayerID p0, X = 13, Y = 4,
              VelocityX = VelocityX p0, VelocityY = VelocityY p0, LastUpdateTime = 1000\<rparr>)\<rparr>"
      using handlePositionUpdate_threshold[OF hf]
      by (simp add: far_def pr sqrt_25)
    then show ?thesis
      by (simp add: p0_def c0_def)
  qed
  from hn n f show ?thesis
    unfolding Let_def
    by (simp add: c0_def p0_def near_def far_def)
qed

section \<open>The authority's report window\<close>

text \<open>One upsert writes the entry of the report's player and the reporting client, and no other.\<close>

lemma window_lookup_step:
  "window_lookup (position_sync_step cid pos w) e ob =
     (if e = PlayerID pos \<and> ob = cid then Some pos else window_lookup w e ob)"
  by (simp add: window_lookup_def position_sync_step_def Let_def split: option.splits)

lemma find_snoc:
  "find P (xs @ [x]) = (case find P xs of Some r \<Rightarrow> Some r | None \<Rightarrow> if P x then Some x else None)"
  by (induction xs) simp_all

text \<open>
  After a whole batch, an entry of the reporting client holds the last report of the
  batch for that player, if there is one; every other entry is as before.
\<close>

lemma window_lookup_fold:
  "window_lookup (fold (position_sync_step cid) ps w) e ob =
     (if ob = cid
      then (case find (\<lambda>p. PlayerID p = e) (rev ps) of
              Some r \<Rightarrow> Some r
            | None \<Rightarrow> window_lookup w e ob)
      else window_lookup w e ob)"
proof (induction ps arbitrary: w)
  case Nil
  then show ?case by simp
next
  case (Cons p ps)
  show ?case
    by (auto simp: Cons.IH window_lookup_step find_snoc split: option.splits)
qed

lemma find_last_distinct:
  "distinct (map f ps) \<Longrightarrow> r \<in> set ps \<Longrightarrow> find (\<lambda>p. f p = f r) (rev ps) = Some r"
proof (induction ps)
  case Nil
  then show ?case by simp
next
  case (Cons a ps)
  show ?case
  proof (cases "r \<in> set ps")
    case True
    with Cons have "find (\<lambda>p. f p = f r) (rev ps) = Some r" by simp
    then show ?thesis by (simp add: find_snoc)
  next
    case False
    with Cons.prems have ra: "r = a" by simp
    have "f a \<notin> f ` set ps"
      using Cons.prems(1) by simp
    then have "\<And>x. x \<in> set ps \<Longrightarrow> f x \<noteq> f a"
      by (metis imageI)
    then have "find (\<lambda>p. f p = f a) (rev ps) = None"
      by (simp add: find_None_iff)
    then show ?thesis by (simp add: find_snoc ra)
  qed
qed

text \<open>
  C9. The window is a map from player id to a map from client id to a report, so it holds
  at most one report for each pair of entity and observer. Handling a batch from client
  \<open>cid\<close> upserts each report of the batch at \<open>window[PlayerID][cid]\<close>: afterwards the entry
  for an entity and \<open>cid\<close> is the last report of the batch for that entity, replacing
  whatever was there, and is unchanged when the batch has none; the entries of every
  other observer are unchanged. When the batch names each entity once, every report of
  the batch is found at its entity and \<open>cid\<close>.
\<close>

theorem handlePositionSync_upsert:
  "window_lookup (positionReports (handlePositionSync s cid (Inr d))) e ob =
     (if ob = cid
      then (case find (\<lambda>p. PlayerID p = e) (rev (Positions d)) of
              Some r \<Rightarrow> Some r
            | None \<Rightarrow> window_lookup (positionReports s) e ob)
      else window_lookup (positionReports s) e ob) \<and>
   (distinct (map PlayerID (Positions d)) \<and> r \<in> set (Positions d) \<longrightarrow>
      window_lookup (positionReports (handlePositionSync s cid (Inr d))) (PlayerID r) cid = Some r)"
  by (simp add: handlePositionSync_def window_lookup_fold find_last_distinct)

text \<open>
  A batch from \<open>client_0\<close> replaces its earlier report for Alice, adds one for Bob, and
  leaves the report of \<open>client_1\<close> alone.
\<close>

theorem handlePositionSync_upsert_witness:
  "let old = \<lparr>PlayerID = ''Alice'', X = 1, Y = 1, GameTime = 100\<rparr>;
       new = \<lparr>PlayerID = ''Alice'', X = 2, Y = 2, GameTime = 300\<rparr>;
       bob = \<lparr>PlayerID = ''Bob'', X = 5, Y = 5, GameTime = 300\<rparr>;
       s0 = \<lparr>positionReports =
               [''Alice'' \<mapsto> [''client_0'' \<mapsto> old, ''client_1'' \<mapsto> old]]\<rparr>;
       d = \<lparr>Positions = [new, bob], GameTime = 300\<rparr>;
       s1 = handlePositionSync s0 ''client_0'' (Inr d)
   in distinct (map PlayerID (Positions d)) \<and> new \<in> set (Positions d) \<and>
      window_lookup (positionReports s1) ''Alice'' ''client_0'' = Some new \<and>
      window_lookup (positionReports s1) ''Alice'' ''client_1'' = Some old \<and>
      window_lookup (positionReports s1) ''Bob'' ''client_0'' = Some bob \<and>
      window_lookup (positionReports s1) ''Bob'' ''client_1'' = None"
proof -
  define old where "old = \<lparr>PlayerID = ''Alice'', X = 1, Y = 1, GameTime = 100\<rparr>"
  define new where "new = \<lparr>PlayerID = ''Alice'', X = 2, Y = 2, GameTime = 300\<rparr>"
  define bob where "bob = \<lparr>PlayerID = ''Bob'', X = 5, Y = 5, GameTime = 300\<rparr>"
  define s0 where "s0 = \<lparr>positionReports =
               [''Alice'' \<mapsto> [''client_0'' \<mapsto> old, ''client_1'' \<mapsto> old]]\<rparr>"
  define d where "d = \<lparr>Positions = [new, bob], GameTime = 300\<rparr>"
  define s1 where "s1 = handlePositionSync s0 ''client_0'' (Inr d)"
  have ids: "PlayerID old = ''Alice''" "PlayerID new = ''Alice''" "PlayerID bob = ''Bob''"
    by (simp_all add: old_def new_def bob_def)
  have h: "distinct (map PlayerID (Positions d))" "new \<in> set (Positions d)"
    by (simp_all add: d_def ids)
  have 1: "window_lookup (positionReports s1) ''Alice'' ''client_0'' = Some new"
    using handlePositionSync_upsert[of s0 "''client_0''" d "''Alice''" "''client_0''" new,
        THEN conjunct2] h
    by (simp add: s1_def ids)
  have 2: "window_lookup (positionReports s1) ''Alice'' ''client_1'' = Some old"
    using handlePositionSync_upsert[of s0 "''client_0''" d "''Alice''" "''client_1''" new,
        THEN conjunct1]
    by (simp add: s1_def s0_def window_lookup_def)
  have 3: "window_lookup (positionReports s1) ''Bob'' ''client_0'' = Some bob"
    using handlePositionSync_upsert[of s0 "''client_0''" d "''Bob''" "''client_0''" new,
        THEN conjunct1]
    by (simp add: s1_def d_def ids)
  have 4: "window_lookup (positionReports s1) ''Bob'' ''client_1'' = None"
    using handlePositionSync_upsert[of s0 "''client_0''" d "''Bob''" "''client_1''" new,
        THEN conjunct1]
    by (simp add: s1_def s0_def window_lookup_def)
  from h 1 2 3 4 show ?thesis
    unfolding Let_def old_def new_def bob_def s0_def d_def s1_def by blast
qed

end
